theory Spec2Isabelle
  imports Main
begin

section \<open>The script \<open>add_env_to_project.py\<close>\<close>

text \<open>
  The repository is one Python script. Its procedure \<open>main\<close> builds two paths, prints
  a banner, asks the filesystem whether an entry exists at the env file path and, when
  one does, opens and reads it, prints a preview and a list of manual steps.

  The model threads a world through \<open>main\<close>: the filesystem the script looks at and
  the trace of what the script has done so far (every \<open>print\<close> call and every
  filesystem operation, in program order). Exceptions and waits are values: an
  operation that can raise, or wait forever, returns an \<open>'a result\<close>.
\<close>

subsection \<open>Strings\<close>

text \<open>
  A Python \<open>str\<close> is a sequence of Unicode code points, and \<open>content[:100]\<close>
  counts code points. The script prints U+2705 and U+274C, which are no 8-bit
  characters, so a \<open>str\<close> is a list of code points here and \<open>lit\<close> embeds an ASCII
  literal.
\<close>

type_synonym str = "nat list"

definition lit :: "string \<Rightarrow> str" where
  "lit s = map of_char s"

definition check_mark :: nat where
  "check_mark = 0x2705"

definition cross_mark :: nat where
  "cross_mark = 0x274C"

definition newline :: nat where
  "newline = 0x0A"

text \<open>The apostrophe that ends a literal is written as its code point, U+0027.\<close>

definition apostrophe :: nat where
  "apostrophe = 0x27"

text \<open>
  \<open>s[:stop]\<close> for an integer \<open>stop\<close>, as Python's slice arithmetic computes it: a
  negative bound counts from the end, and every bound is clamped into
  \<open>0 .. len(s)\<close>. A slice never raises.
\<close>

definition slice_upto :: "'a list \<Rightarrow> int \<Rightarrow> 'a list" where
  "slice_upto s stop =
     (let n = int (length s);
          k = (if stop < 0 then max 0 (n + stop) else min stop n)
      in take (nat k) s)"

subsection \<open>\<open>os.path.join\<close> on POSIX\<close>

text \<open>
  The project directory is an absolute POSIX path, so \<open>os.path\<close> is \<open>posixpath\<close>:
  a component that starts with the separator replaces what was joined so far, a
  component after an empty path or after a trailing separator is appended, any other
  component is appended after a separator.
\<close>

definition sep :: str where
  "sep = lit ''/''"

definition startswith :: "str \<Rightarrow> str \<Rightarrow> bool" where
  "startswith s p = (take (length p) s = p)"

definition endswith :: "str \<Rightarrow> str \<Rightarrow> bool" where
  "endswith s p = (length p \<le> length s \<and> drop (length s - length p) s = p)"

definition join_step :: "str \<Rightarrow> str \<Rightarrow> str" where
  "join_step path b =
     (if startswith b sep then b
      else if path = [] \<or> endswith path sep then path @ b
      else path @ sep @ b)"

definition os_path_join :: "str \<Rightarrow> str list \<Rightarrow> str" where
  "os_path_join a p = foldl join_step a p"

subsection \<open>The filesystem and the trace\<close>

text \<open>
  The filesystem maps a path to the entry it resolves to (\<open>os.path.exists\<close> follows
  symbolic links, and is false for a dangling one). The kinds of entry differ in what
  \<open>open(p, 'r')\<close> and \<open>read()\<close> do on them:
  \<^item> a directory: \<open>open\<close> raises \<open>IsADirectoryError\<close>;
  \<^item> a regular file, with whether the process may open it for reading and with what
    reading it in text mode yields: its decoded text, or nothing when its bytes do not
    decode;
  \<^item> a character device the process may read, with the text reading it yields (the
    empty text for \<open>/dev/null\<close>);
  \<^item> a FIFO that no process has opened for writing: \<open>open\<close> waits for a writer
    and never returns;
  \<^item> a socket: \<open>open\<close> raises \<open>OSError\<close>.
\<close>

datatype fs_entry =
  Directory
| RegularFile (readable: bool) (decoded: "str option")
| CharDevice str
| Fifo
| Socket

datatype exception =
  FileNotFoundError | IsADirectoryError | PermissionError | UnicodeDecodeError | OSError

text \<open>What a call does: it returns a value, raises, or waits forever.\<close>

datatype 'a result = Ok 'a | Raise exception | Blocks

datatype event =
  Print str
| Exists str
| Open str string
| Read str
| Close str
| Traceback exception

record world =
  fs :: "str \<rightharpoonup> fs_entry"
  trace :: "event list"

definition emit :: "event \<Rightarrow> world \<Rightarrow> world" where
  "emit e w = w\<lparr>trace := trace w @ [e]\<rparr>"

text \<open>\<open>print(s)\<close> writes \<open>s\<close> and a newline to standard output.\<close>

definition print :: "str \<Rightarrow> world \<Rightarrow> world" where
  "print s w = emit (Print s) w"

text \<open>\<open>os.path.exists(p)\<close>: true for an entry of any kind.\<close>

definition os_path_exists :: "str \<Rightarrow> world \<Rightarrow> bool \<times> world" where
  "os_path_exists p w = (fs w p \<noteq> None, emit (Exists p) w)"

text \<open>
  \<open>open(p, 'r')\<close>: the handle of a readable regular file or of a character device
  (the handle is the path it was opened at), an exception or an endless wait otherwise.
\<close>

definition py_open :: "str \<Rightarrow> string \<Rightarrow> world \<Rightarrow> str result \<times> world" where
  "py_open p mode w =
     (case fs w p of
        None \<Rightarrow> Raise FileNotFoundError
      | Some Directory \<Rightarrow> Raise IsADirectoryError
      | Some (RegularFile rd d) \<Rightarrow> if rd then Ok p else Raise PermissionError
      | Some (CharDevice text) \<Rightarrow> Ok p
      | Some Fifo \<Rightarrow> Blocks
      | Some Socket \<Rightarrow> Raise OSError,
      emit (Open p mode) w)"

text \<open>\<open>f.read()\<close>: the whole decoded text of the file behind the handle.\<close>

definition read :: "str \<Rightarrow> world \<Rightarrow> str result \<times> world" where
  "read f w =
     (case fs w f of
        Some (RegularFile rd (Some content)) \<Rightarrow> Ok content
      | Some (RegularFile rd None) \<Rightarrow> Raise UnicodeDecodeError
      | Some (CharDevice text) \<Rightarrow> Ok text
      | Some Directory \<Rightarrow> Raise IsADirectoryError
      | Some Fifo \<Rightarrow> Blocks
      | Some Socket \<Rightarrow> Raise OSError
      | None \<Rightarrow> Raise OSError,
      emit (Read f) w)"

text \<open>Leaving the \<open>with\<close> block closes the handle, on every way out.\<close>

definition close :: "str \<Rightarrow> world \<Rightarrow> world" where
  "close f w = emit (Close f) w"

subsection \<open>The entry routine\<close>

text \<open>The two locals of \<open>main\<close> that hold the paths.\<close>

definition project_dir :: str where
  "project_dir = lit ''/Users/WORK2/Desktop/Rapid Notes/Rapid Notes''"

definition env_file :: str where
  "env_file = os_path_join project_dir [lit ''Rapid Notes'', lit ''.env'']"

text \<open>
  \<open>main\<close>, statement by statement. The result says how \<open>main\<close> ended: it
  returned, an exception left it uncaught, or it waits forever in a call; with it comes
  the world at that moment.
\<close>

definition main :: "world \<Rightarrow> unit result \<times> world" where
  "main w0 =
     (let w1 = print (lit ''=== Adding .env file to Xcode project ==='') w0;
          w2 = print (lit ''Project directory: '' @ project_dir) w1;
          w3 = print (lit ''.env file path: '' @ env_file) w2;
          (found, w4) = os_path_exists env_file w3
      in if found then
           (let w5 = print (check_mark # lit '' .env file found'') w4 in
            case py_open env_file ''r'' w5 of
              (Raise e, w6) \<Rightarrow> (Raise e, w6)
            | (Blocks, w6) \<Rightarrow> (Blocks, w6)
            | (Ok f, w6) \<Rightarrow>
                (case read f w6 of
                   (Raise e, w7) \<Rightarrow> (Raise e, close f w7)
                 | (Blocks, w7) \<Rightarrow> (Blocks, w7)
                 | (Ok content, w7) \<Rightarrow>
                     (let w8 = print (lit ''Content preview: '' @ slice_upto content 100
                                        @ lit ''...'') w7;
                          w9 = close f w8;
                          w10 = print (newline # lit ''To add .env to Xcode project:'') w9;
                          w11 = print (lit ''1. In Xcode, right-click on 'Rapid Notes' folder'') w10;
                          w12 = print (lit ''2. Choose 'Add Files to Rapid Notes'' @ [apostrophe]) w11;
                          w13 = print (lit ''3. Navigate to and select the .env file'') w12;
                          w14 = print (lit ''4. Make sure 'Add to target: Rapid Notes' is checked'') w13;
                          w15 = print (lit ''5. Choose 'Create folder references' (not groups)'') w14;
                          w16 = print (lit ''6. Click 'Add'' @ [apostrophe]) w15
                      in (Ok (), w16))))
         else
           (let w5 = print (cross_mark # lit '' .env file not found'') w4;
                w6 = print (lit ''Please create the .env file first'') w5
            in (Ok (), w6)))"

text \<open>
  The module's last statement calls \<open>main()\<close>. The interpreter exits with status 0
  when it returns, and prints a traceback and exits with status 1 when an exception
  leaves it. While \<open>main\<close> waits, the process does not exit: there is no status.
\<close>

definition script :: "world \<Rightarrow> nat option \<times> world" where
  "script w =
     (case main w of
        (Ok u, w') \<Rightarrow> (Some 0, w')
      | (Raise e, w') \<Rightarrow> (Some 1, emit (Traceback e) w')
      | (Blocks, w') \<Rightarrow> (None, w'))"

subsection \<open>What a run did\<close>

text \<open>
  The events a run of \<open>main\<close>, or of the whole script, appended to the trace, and
  the arguments of the \<open>print\<close> calls among some events.
\<close>

definition run_events :: "world \<Rightarrow> event list" where
  "run_events w = drop (length (trace w)) (trace (snd (main w)))"

definition script_events :: "world \<Rightarrow> event list" where
  "script_events w = drop (length (trace w)) (trace (snd (script w)))"

fun printed :: "event list \<Rightarrow> str list" where
  "printed [] = []"
| "printed (Print s # es) = s # printed es"
| "printed (e # es) = printed es"

fun is_exists :: "event \<Rightarrow> bool" where
  "is_exists (Exists p) = True"
| "is_exists e = False"

fun is_open :: "event \<Rightarrow> bool" where
  "is_open (Open p m) = True"
| "is_open e = False"

fun is_read :: "event \<Rightarrow> bool" where
  "is_read (Read f) = True"
| "is_read e = False"

text \<open>An event that cannot change the filesystem: anything but opening in a mode other than \<open>'r'\<close>.\<close>

fun read_only :: "event \<Rightarrow> bool" where
  "read_only (Open p m) = (m = ''r'')"
| "read_only e = True"

fun is_regular :: "fs_entry \<Rightarrow> bool" where
  "is_regular (RegularFile rd d) = True"
| "is_regular e = False"

subsection \<open>The lines the specification names\<close>

definition banner :: str where
  "banner = lit ''=== Adding .env file to Xcode project ===''"

definition project_line :: str where
  "project_line = lit ''Project directory: /Users/WORK2/Desktop/Rapid Notes/Rapid Notes''"

definition path_line :: str where
  "path_line = lit ''.env file path: /Users/WORK2/Desktop/Rapid Notes/Rapid Notes/Rapid Notes/.env''"

definition success_marker :: str where
  "success_marker = check_mark # lit '' .env file found''"

definition failure_marker :: str where
  "failure_marker = cross_mark # lit '' .env file not found''"

definition create_prompt :: str where
  "create_prompt = lit ''Please create the .env file first''"

definition ellipsis :: str where
  "ellipsis = lit ''...''"

definition instruction_header :: str where
  "instruction_header = newline # lit ''To add .env to Xcode project:''"

definition six_steps :: "str list" where
  "six_steps =
     [lit ''1. In Xcode, right-click on 'Rapid Notes' folder'',
      lit ''2. Choose 'Add Files to Rapid Notes'' @ [apostrophe],
      lit ''3. Navigate to and select the .env file'',
      lit ''4. Make sure 'Add to target: Rapid Notes' is checked'',
      lit ''5. Choose 'Create folder references' (not groups)'',
      lit ''6. Click 'Add'' @ [apostrophe]]"

text \<open>The three banner prints and the existence check every run starts with.\<close>

definition prologue :: "event list" where
  "prologue = [Print banner, Print project_line, Print path_line, Exists env_file]"

subsection \<open>Filesystems to run the script on\<close>

definition absent_world :: world where
  "absent_world = \<lparr>fs = Map.empty, trace = []\<rparr>"

definition entry_world :: "fs_entry \<Rightarrow> world" where
  "entry_world e = \<lparr>fs = [env_file \<mapsto> e], trace = []\<rparr>"

definition short_content :: str where
  "short_content = lit ''API_KEY=abc123''"

definition long_content :: str where
  "long_content = lit ''SECRET='' @ replicate 120 (of_char (CHR ''x''))"

text \<open>\<open>/dev/null\<close>: a character device that reads as the empty text.\<close>

definition dev_null :: fs_entry where
  "dev_null = CharDevice []"

section \<open>What \<open>main\<close> does, case by case\<close>

lemma env_file_value:
  "env_file = lit ''/Users/WORK2/Desktop/Rapid Notes/Rapid Notes/Rapid Notes/.env''"
  by (simp add: env_file_def project_dir_def os_path_join_def join_step_def
        startswith_def endswith_def sep_def lit_def)

lemma slice_upto_100: "slice_upto s 100 = take 100 s"
  by (simp add: slice_upto_def Let_def min_def)

lemma project_line_eq: "lit ''Project directory: '' @ project_dir = project_line"
  by (simp add: project_line_def project_dir_def lit_def)

lemma path_line_eq: "lit ''.env file path: '' @ env_file = path_line"
  by (simp add: path_line_def env_file_value lit_def)

lemmas op_defs = print_def emit_def os_path_exists_def py_open_def read_def close_def

lemmas line_defs = project_line_eq path_line_eq prologue_def banner_def
  success_marker_def failure_marker_def create_prompt_def

lemma main_absent:
  "fs w env_file = None \<Longrightarrow>
   main w = (Ok (), w\<lparr>trace := trace w @ prologue @ [Print failure_marker, Print create_prompt]\<rparr>)"
  by (simp add: main_def op_defs Let_def line_defs)

lemma main_directory:
  "fs w env_file = Some Directory \<Longrightarrow>
   main w = (Raise IsADirectoryError,
     w\<lparr>trace := trace w @ prologue @ [Print success_marker, Open env_file ''r'']\<rparr>)"
  by (simp add: main_def op_defs Let_def line_defs)

lemma main_socket:
  "fs w env_file = Some Socket \<Longrightarrow>
   main w = (Raise OSError,
     w\<lparr>trace := trace w @ prologue @ [Print success_marker, Open env_file ''r'']\<rparr>)"
  by (simp add: main_def op_defs Let_def line_defs)

lemma main_fifo:
  "fs w env_file = Some Fifo \<Longrightarrow>
   main w = (Blocks,
     w\<lparr>trace := trace w @ prologue @ [Print success_marker, Open env_file ''r'']\<rparr>)"
  by (simp add: main_def op_defs Let_def line_defs)

lemma main_unreadable:
  "fs w env_file = Some (RegularFile False d) \<Longrightarrow>
   main w = (Raise PermissionError,
     w\<lparr>trace := trace w @ prologue @ [Print success_marker, Open env_file ''r'']\<rparr>)"
  by (simp add: main_def op_defs Let_def line_defs)

lemma main_undecodable:
  "fs w env_file = Some (RegularFile True None) \<Longrightarrow>
   main w = (Raise UnicodeDecodeError,
     w\<lparr>trace := trace w @ prologue @
       [Print success_marker, Open env_file ''r'', Read env_file, Close env_file]\<rparr>)"
  by (simp add: main_def op_defs Let_def line_defs)

lemma main_readable:
  "fs w env_file = Some (RegularFile True (Some content)) \<Longrightarrow>
   main w = (Ok (),
     w\<lparr>trace := trace w @ prologue @
       [Print success_marker, Open env_file ''r'', Read env_file,
        Print (lit ''Content preview: '' @ take 100 content @ ellipsis), Close env_file] @
       map Print (instruction_header # six_steps)\<rparr>)"
  by (simp add: main_def op_defs Let_def line_defs slice_upto_100 ellipsis_def
        instruction_header_def six_steps_def)

lemma main_chardev:
  "fs w env_file = Some (CharDevice content) \<Longrightarrow>
   main w = (Ok (),
     w\<lparr>trace := trace w @ prologue @
       [Print success_marker, Open env_file ''r'', Read env_file,
        Print (lit ''Content preview: '' @ take 100 content @ ellipsis), Close env_file] @
       map Print (instruction_header # six_steps)\<rparr>)"
  by (simp add: main_def op_defs Let_def line_defs slice_upto_100 ellipsis_def
        instruction_header_def six_steps_def)

lemmas main_cases = main_absent main_directory main_socket main_fifo main_unreadable
  main_undecodable main_readable main_chardev

lemma run_events_absent:
  "fs w env_file = None \<Longrightarrow>
   run_events w = prologue @ [Print failure_marker, Print create_prompt]"
  by (simp add: run_events_def main_absent)

lemma run_events_directory:
  "fs w env_file = Some Directory \<Longrightarrow>
   run_events w = prologue @ [Print success_marker, Open env_file ''r'']"
  by (simp add: run_events_def main_directory)

lemma run_events_socket:
  "fs w env_file = Some Socket \<Longrightarrow>
   run_events w = prologue @ [Print success_marker, Open env_file ''r'']"
  by (simp add: run_events_def main_socket)

lemma run_events_fifo:
  "fs w env_file = Some Fifo \<Longrightarrow>
   run_events w = prologue @ [Print success_marker, Open env_file ''r'']"
  by (simp add: run_events_def main_fifo)

lemma run_events_unreadable:
  "fs w env_file = Some (RegularFile False d) \<Longrightarrow>
   run_events w = prologue @ [Print success_marker, Open env_file ''r'']"
  by (simp add: run_events_def main_unreadable)

lemma run_events_undecodable:
  "fs w env_file = Some (RegularFile True None) \<Longrightarrow>
   run_events w = prologue @
     [Print success_marker, Open env_file ''r'', Read env_file, Close env_file]"
  by (simp add: run_events_def main_undecodable)

lemma run_events_readable:
  "fs w env_file = Some (RegularFile True (Some content)) \<Longrightarrow>
   run_events w = prologue @
     [Print success_marker, Open env_file ''r'', Read env_file,
      Print (lit ''Content preview: '' @ take 100 content @ ellipsis), Close env_file] @
     map Print (instruction_header # six_steps)"
  by (simp add: run_events_def main_readable)

lemma run_events_chardev:
  "fs w env_file = Some (CharDevice content) \<Longrightarrow>
   run_events w = prologue @
     [Print success_marker, Open env_file ''r'', Read env_file,
      Print (lit ''Content preview: '' @ take 100 content @ ellipsis), Close env_file] @
     map Print (instruction_header # six_steps)"
  by (simp add: run_events_def main_chardev)

lemmas run_events_cases = run_events_absent run_events_directory run_events_socket
  run_events_fifo run_events_unreadable run_events_undecodable run_events_readable
  run_events_chardev

text \<open>Every filesystem falls under one of the eight cases above.\<close>

lemma entry_cases:
  obtains (absent) "fs w env_file = None"
  | (directory) "fs w env_file = Some Directory"
  | (socket) "fs w env_file = Some Socket"
  | (fifo) "fs w env_file = Some Fifo"
  | (unreadable) d where "fs w env_file = Some (RegularFile False d)"
  | (undecodable) "fs w env_file = Some (RegularFile True None)"
  | (readable) content where "fs w env_file = Some (RegularFile True (Some content))"
  | (chardev) content where "fs w env_file = Some (CharDevice content)"
proof (cases "fs w env_file")
  case None
  then show thesis by (rule absent)
next
  case (Some e)
  show thesis
  proof (cases e)
    case Directory
    with Some show thesis by (simp add: directory)
  next
    case (RegularFile rd d)
    show thesis
    proof (cases rd)
      case False
      with Some RegularFile show thesis by (simp add: unreadable)
    next
      case True
      with Some RegularFile show thesis
        by (cases d) (simp_all add: undecodable readable)
    qed
  next
    case (CharDevice content)
    with Some show thesis by (simp add: chardev)
  next
    case Fifo
    with Some show thesis by (simp add: fifo)
  next
    case Socket
    with Some show thesis by (simp add: socket)
  qed
qed

text \<open>A run only appends to the trace, and never touches the filesystem.\<close>

lemma trace_main: "trace (snd (main w)) = trace w @ run_events w"
  by (cases rule: entry_cases [of w]) (simp_all add: run_events_cases main_cases)

lemma fs_main: "fs (snd (main w)) = fs w"
  by (cases rule: entry_cases [of w]) (simp_all add: main_cases)

lemma script_events_ok:
  "fst (main w) = Ok u \<Longrightarrow> fst (script w) = Some 0 \<and> script_events w = run_events w"
  by (cases "main w") (simp add: script_def script_events_def run_events_def)

lemma script_events_raised:
  "fst (main w) = Raise e \<Longrightarrow>
   fst (script w) = Some 1 \<and> script_events w = run_events w @ [Traceback e]"
  using trace_main [of w]
  by (cases "main w") (simp add: script_def script_events_def emit_def)

lemma script_events_blocked:
  "fst (main w) = Blocks \<Longrightarrow> fst (script w) = None \<and> script_events w = run_events w"
  by (cases "main w") (simp add: script_def script_events_def run_events_def)

lemma fs_script: "fs (snd (script w)) = fs w"
proof (cases "main w")
  case (Pair r w')
  with fs_main [of w] show ?thesis
    by (cases r) (simp_all add: script_def emit_def)
qed

lemma fs_entry_world: "fs (entry_world e) env_file = Some e"
  by (simp add: entry_world_def)

lemma fs_absent_world: "fs absent_world env_file = None"
  by (simp add: absent_world_def)

lemma printed_traceback: "printed (es @ [Traceback e]) = printed es"
  by (induction es rule: printed.induct) simp_all

section \<open>The claims\<close>

text \<open>
  C1, as amended. When the entry at the env file path is a regular file that the
  process may read and whose bytes decode to \<open>content\<close>, \<open>main\<close> returns normally and
  its run is, in this order: the banner and the two path lines, the existence check, the
  success marker, the open for reading, the read of the whole file, the preview line
  made of the first 100 characters of \<open>content\<close> and the ellipsis, the close, and the
  header and six steps of the instruction list.
\<close>

theorem main_found_readable:
  assumes "fs w env_file = Some (RegularFile True (Some content))"
  shows "fst (main w) = Ok () \<and>
    run_events w =
      [Print banner, Print project_line, Print path_line, Exists env_file,
       Print success_marker, Open env_file ''r'', Read env_file,
       Print (lit ''Content preview: '' @ take 100 content @ ellipsis),
       Close env_file, Print instruction_header] @ map Print six_steps"
  using assms by (simp add: main_readable run_events_readable prologue_def)

theorem main_found_readable_witness:
  "fs (entry_world (RegularFile True (Some long_content))) env_file =
     Some (RegularFile True (Some long_content)) \<and>
   fst (main (entry_world (RegularFile True (Some long_content)))) = Ok () \<and>
   printed (run_events (entry_world (RegularFile True (Some long_content)))) ! 4 =
     lit ''Content preview: SECRET='' @ replicate 93 (of_char (CHR ''x'')) @ lit ''...''"
  using main_found_readable [of "entry_world (RegularFile True (Some long_content))" long_content]
  by (simp add: fs_entry_world long_content_def lit_def ellipsis_def)

text \<open>
  C1 as stated fails: an entry exists at the env file path, a directory, and the run
  prints the success marker and nothing after it, reads nothing, and ends in an
  exception.
\<close>

theorem main_found_directory_counterexample:
  "fs (entry_world Directory) env_file = Some Directory \<and>
   fst (main (entry_world Directory)) = Raise IsADirectoryError \<and>
   printed (run_events (entry_world Directory)) =
     [banner, project_line, path_line, success_marker] \<and>
   filter is_read (run_events (entry_world Directory)) = []"
  by (simp add: fs_entry_world main_directory run_events_directory prologue_def)

text \<open>
  C2. When no entry exists at the env file path, \<open>main\<close> returns normally, its run is
  the banner and the two path lines, the existence check, the failure marker and the
  prompt to create the file, and no event of the run opens a file.
\<close>

theorem main_not_found:
  assumes "fs w env_file = None"
  shows "fst (main w) = Ok () \<and>
    run_events w =
      [Print banner, Print project_line, Print path_line, Exists env_file,
       Print failure_marker, Print create_prompt] \<and>
    filter is_open (run_events w) = []"
  using assms by (simp add: main_absent run_events_absent prologue_def)

theorem main_not_found_witness:
  "fs absent_world env_file = None \<and>
   fst (main absent_world) = Ok () \<and>
   printed (run_events absent_world) =
     [banner, project_line, path_line, failure_marker, create_prompt] \<and>
   filter is_open (run_events absent_world) = []"
  using main_not_found [of absent_world] by (simp add: fs_absent_world)

text \<open>
  C3. When the readable env file's content has fewer than 100 characters, the slice
  \<open>content[:100]\<close> is the whole content, \<open>main\<close> raises nothing, and the preview line
  it prints (its fifth line) is the prefix, the whole content and the ellipsis.
\<close>

theorem preview_short_content:
  assumes "fs w env_file = Some (RegularFile True (Some content))"
    and "length content < 100"
  shows "slice_upto content 100 = content \<and>
    fst (main w) = Ok () \<and>
    printed (run_events w) ! 4 = lit ''Content preview: '' @ content @ ellipsis"
  using assms by (simp add: slice_upto_100 main_readable run_events_readable prologue_def)

theorem preview_short_content_witness:
  "fs (entry_world (RegularFile True (Some short_content))) env_file =
     Some (RegularFile True (Some short_content)) \<and>
   length short_content < 100 \<and>
   slice_upto short_content 100 = short_content \<and>
   fst (main (entry_world (RegularFile True (Some short_content)))) = Ok () \<and>
   printed (run_events (entry_world (RegularFile True (Some short_content)))) ! 4 =
     lit ''Content preview: API_KEY=abc123...''"
  using preview_short_content
    [of "entry_world (RegularFile True (Some short_content))" short_content]
  by (simp add: fs_entry_world short_content_def lit_def ellipsis_def)

text \<open>
  C4. On the not-found path and on the found path with a readable file the script exits
  with status 0, and what it did is what \<open>main\<close> did (no traceback); on the not-found
  path the failure marker is among the printed lines.
\<close>

theorem exit_status_found_or_not:
  "(fs w env_file = None \<longrightarrow>
      fst (script w) = Some 0 \<and> script_events w = run_events w \<and>
      failure_marker \<in> set (printed (script_events w))) \<and>
   (fs w env_file = Some (RegularFile True (Some content)) \<longrightarrow>
      fst (script w) = Some 0 \<and> script_events w = run_events w)"
proof (intro conjI impI)
  assume a: "fs w env_file = None"
  then have "fst (main w) = Ok ()" by (simp add: main_absent)
  then show "fst (script w) = Some 0" and e: "script_events w = run_events w"
    by (simp_all add: script_events_ok)
  from a e show "failure_marker \<in> set (printed (script_events w))"
    by (simp add: run_events_absent prologue_def)
next
  assume "fs w env_file = Some (RegularFile True (Some content))"
  then have "fst (main w) = Ok ()" by (simp add: main_readable)
  then show "fst (script w) = Some 0" and "script_events w = run_events w"
    by (simp_all add: script_events_ok)
qed

theorem exit_status_found_or_not_witness:
  "fs absent_world env_file = None \<and>
   fst (script absent_world) = Some 0 \<and>
   failure_marker \<in> set (printed (script_events absent_world)) \<and>
   fs (entry_world (RegularFile True (Some short_content))) env_file =
     Some (RegularFile True (Some short_content)) \<and>
   fst (script (entry_world (RegularFile True (Some short_content)))) = Some 0"
  using exit_status_found_or_not [of absent_world short_content]
    exit_status_found_or_not
      [of "entry_world (RegularFile True (Some short_content))" short_content]
  by (auto simp add: fs_absent_world fs_entry_world)

text \<open>
  C5. The env file path is the join of the project directory, \<open>Rapid Notes\<close> and
  \<open>.env\<close>, which is the path written out below; every run starts with the banner,
  the line with the project directory and the line with the env file path, and only
  then checks existence, once, at that path.
\<close>

theorem env_path_and_banner_first:
  "env_file = os_path_join (lit ''/Users/WORK2/Desktop/Rapid Notes/Rapid Notes'')
      [lit ''Rapid Notes'', lit ''.env''] \<and>
   env_file = lit ''/Users/WORK2/Desktop/Rapid Notes/Rapid Notes/Rapid Notes/.env'' \<and>
   take 4 (run_events w) =
     [Print banner, Print (lit ''Project directory: '' @ project_dir),
      Print (lit ''.env file path: '' @ env_file), Exists env_file] \<and>
   filter is_exists (run_events w) = [Exists env_file]"
proof (intro conjI)
  show "env_file = os_path_join (lit ''/Users/WORK2/Desktop/Rapid Notes/Rapid Notes'')
      [lit ''Rapid Notes'', lit ''.env'']"
    by (simp add: env_file_def project_dir_def)
  show "env_file = lit ''/Users/WORK2/Desktop/Rapid Notes/Rapid Notes/Rapid Notes/.env''"
    by (rule env_file_value)
  show "take 4 (run_events w) =
     [Print banner, Print (lit ''Project directory: '' @ project_dir),
      Print (lit ''.env file path: '' @ env_file), Exists env_file]"
    by (cases rule: entry_cases [of w])
      (simp_all add: run_events_cases prologue_def project_line_eq path_line_eq)
  show "filter is_exists (run_events w) = [Exists env_file]"
    by (cases rule: entry_cases [of w])
      (simp_all add: run_events_cases prologue_def six_steps_def)
qed

theorem env_path_and_banner_first_witness:
  "take 4 (run_events absent_world) =
     [Print banner, Print project_line, Print path_line, Exists env_file] \<and>
   take 4 (run_events (entry_world Directory)) =
     [Print banner, Print project_line, Print path_line, Exists env_file]"
  using env_path_and_banner_first [of absent_world]
    env_path_and_banner_first [of "entry_world Directory"]
  by (simp add: project_line_eq path_line_eq)

text \<open>
  A run that found an entry and returned normally printed the twelve lines of the found
  path, with the preview of some text.
\<close>

lemma success_printed:
  assumes "fs w env_file \<noteq> None" and "fst (main w) = Ok ()"
  shows "\<exists>content. printed (run_events w) =
    [banner, project_line, path_line, success_marker,
     lit ''Content preview: '' @ take 100 content @ ellipsis, instruction_header] @ six_steps"
  using assms
proof (cases rule: entry_cases [of w])
  case (readable content)
  then have "printed (run_events w) =
    [banner, project_line, path_line, success_marker,
     lit ''Content preview: '' @ take 100 content @ ellipsis, instruction_header] @ six_steps"
    by (simp add: run_events_readable prologue_def six_steps_def)
  then show ?thesis by (rule exI)
next
  case (chardev content)
  then have "printed (run_events w) =
    [banner, project_line, path_line, success_marker,
     lit ''Content preview: '' @ take 100 content @ ellipsis, instruction_header] @ six_steps"
    by (simp add: run_events_chardev prologue_def six_steps_def)
  then show ?thesis by (rule exI)
qed (simp_all add: main_cases)

text \<open>
  C6. Two runs that both find an entry and both return normally print the same lines
  except, possibly, the fifth (the preview): the four lines before it agree, and the
  lines after it are in both runs the header and the six steps.
\<close>

theorem instructions_independent_of_content:
  assumes "fs w1 env_file \<noteq> None" and "fst (main w1) = Ok ()"
    and "fs w2 env_file \<noteq> None" and "fst (main w2) = Ok ()"
  shows "drop 5 (printed (run_events w1)) = instruction_header # six_steps \<and>
    drop 5 (printed (run_events w2)) = instruction_header # six_steps \<and>
    take 4 (printed (run_events w1)) = take 4 (printed (run_events w2)) \<and>
    length (printed (run_events w1)) = 12 \<and> length (printed (run_events w2)) = 12"
proof -
  from assms(1,2) obtain c1 where c1: "printed (run_events w1) =
    [banner, project_line, path_line, success_marker,
     lit ''Content preview: '' @ take 100 c1 @ ellipsis, instruction_header] @ six_steps"
    using success_printed by blast
  from assms(3,4) obtain c2 where c2: "printed (run_events w2) =
    [banner, project_line, path_line, success_marker,
     lit ''Content preview: '' @ take 100 c2 @ ellipsis, instruction_header] @ six_steps"
    using success_printed by blast
  show ?thesis by (simp add: c1 c2 six_steps_def)
qed

theorem instructions_independent_of_content_witness:
  "fs (entry_world (RegularFile True (Some short_content))) env_file \<noteq> None \<and>
   fst (main (entry_world (RegularFile True (Some short_content)))) = Ok () \<and>
   fs (entry_world (RegularFile True (Some long_content))) env_file \<noteq> None \<and>
   fst (main (entry_world (RegularFile True (Some long_content)))) = Ok () \<and>
   drop 5 (printed (run_events (entry_world (RegularFile True (Some short_content))))) =
     drop 5 (printed (run_events (entry_world (RegularFile True (Some long_content))))) \<and>
   printed (run_events (entry_world (RegularFile True (Some short_content)))) ! 4 \<noteq>
     printed (run_events (entry_world (RegularFile True (Some long_content)))) ! 4"
proof -
  let ?a = "entry_world (RegularFile True (Some short_content))"
  let ?b = "entry_world (RegularFile True (Some long_content))"
  have a: "fs ?a env_file \<noteq> None" "fst (main ?a) = Ok ()"
    by (simp_all add: fs_entry_world main_readable)
  have b: "fs ?b env_file \<noteq> None" "fst (main ?b) = Ok ()"
    by (simp_all add: fs_entry_world main_readable)
  have d: "printed (run_events ?a) ! 4 \<noteq> printed (run_events ?b) ! 4"
    by (simp add: fs_entry_world run_events_readable prologue_def short_content_def
          long_content_def lit_def ellipsis_def)
  from instructions_independent_of_content [OF a b] a b d show ?thesis by simp
qed

text \<open>
  C7. When an entry exists at the env file path and opening it raises \<open>e\<close>, or opening
  it succeeds and reading the handle raises \<open>e\<close>, that exception leaves \<open>main\<close>
  uncaught: the script ends with a traceback of \<open>e\<close> and exit status 1, and the last
  line it printed is the success marker.
\<close>

theorem open_or_read_failure_propagates:
  assumes "fs w env_file \<noteq> None"
    and "fst (py_open env_file ''r'' w) = Raise e \<or>
         (fst (py_open env_file ''r'' w) = Ok f \<and> fst (read f w) = Raise e)"
  shows "fst (main w) = Raise e \<and> fst (script w) = Some 1 \<and>
    last (script_events w) = Traceback e \<and>
    printed (script_events w) = [banner, project_line, path_line, success_marker]"
proof -
  have m: "fst (main w) = Raise e \<and>
      printed (run_events w) = [banner, project_line, path_line, success_marker]"
    using assms
    by (cases rule: entry_cases [of w])
      (auto simp add: py_open_def read_def main_cases run_events_cases prologue_def)
  then have s: "fst (script w) = Some 1" "script_events w = run_events w @ [Traceback e]"
    by (simp_all add: script_events_raised)
  from m s show ?thesis by (simp add: printed_traceback)
qed

theorem open_or_read_failure_propagates_witness:
  "fs (entry_world (RegularFile False (Some short_content))) env_file \<noteq> None \<and>
   fst (py_open env_file ''r'' (entry_world (RegularFile False (Some short_content)))) =
     Raise PermissionError \<and>
   fst (script (entry_world (RegularFile False (Some short_content)))) = Some 1 \<and>
   last (script_events (entry_world (RegularFile False (Some short_content)))) =
     Traceback PermissionError \<and>
   fs (entry_world (RegularFile True None)) env_file \<noteq> None \<and>
   fst (py_open env_file ''r'' (entry_world (RegularFile True None))) = Ok env_file \<and>
   fst (read env_file (entry_world (RegularFile True None))) = Raise UnicodeDecodeError \<and>
   fst (script (entry_world (RegularFile True None))) = Some 1 \<and>
   last (script_events (entry_world (RegularFile True None))) =
     Traceback UnicodeDecodeError"
proof -
  let ?a = "entry_world (RegularFile False (Some short_content))"
  let ?b = "entry_world (RegularFile True None)"
  have a: "fs ?a env_file \<noteq> None" "fst (py_open env_file ''r'' ?a) = Raise PermissionError"
    by (simp_all add: fs_entry_world py_open_def)
  have b: "fs ?b env_file \<noteq> None" "fst (py_open env_file ''r'' ?b) = Ok env_file"
    "fst (read env_file ?b) = Raise UnicodeDecodeError"
    by (simp_all add: fs_entry_world py_open_def read_def)
  from a have "fst (py_open env_file ''r'' ?a) = Raise PermissionError \<or>
      (fst (py_open env_file ''r'' ?a) = Ok env_file \<and>
       fst (read env_file ?a) = Raise PermissionError)"
    by simp
  from open_or_read_failure_propagates [OF a(1) this]
  have ra: "fst (script ?a) = Some 1" "last (script_events ?a) = Traceback PermissionError"
    by simp_all
  from b have "fst (py_open env_file ''r'' ?b) = Raise UnicodeDecodeError \<or>
      (fst (py_open env_file ''r'' ?b) = Ok env_file \<and>
       fst (read env_file ?b) = Raise UnicodeDecodeError)"
    by simp
  from open_or_read_failure_propagates [OF b(1) this]
  have rb: "fst (script ?b) = Some 1" "last (script_events ?b) = Traceback UnicodeDecodeError"
    by simp_all
  from a b ra rb show ?thesis by simp
qed

text \<open>
  C8. Whatever the filesystem, a run of the script leaves it as it was, checks existence
  exactly once, reads at most once, opens at most once, and every event of the run is
  read-only: the only open is for reading.
\<close>

theorem read_only_access:
  "fs (snd (script w)) = fs w \<and>
   length (filter is_exists (script_events w)) = 1 \<and>
   length (filter is_read (script_events w)) \<le> 1 \<and>
   length (filter is_open (script_events w)) \<le> 1 \<and>
   list_all read_only (script_events w)"
proof -
  have e: "script_events w = run_events w \<or>
      (\<exists>e. script_events w = run_events w @ [Traceback e])"
    using script_events_ok [of w] script_events_raised [of w] script_events_blocked [of w]
    by (cases "fst (main w)") auto
  have r: "length (filter is_exists (run_events w)) = 1 \<and>
      length (filter is_read (run_events w)) \<le> 1 \<and>
      length (filter is_open (run_events w)) \<le> 1 \<and>
      list_all read_only (run_events w)"
    by (cases rule: entry_cases [of w])
      (simp_all add: run_events_cases prologue_def six_steps_def)
  from e r show ?thesis by (auto simp add: fs_script)
qed

theorem read_only_access_witness:
  "fs (snd (script (entry_world (RegularFile True (Some short_content))))) env_file =
     Some (RegularFile True (Some short_content)) \<and>
   length (filter is_exists
     (script_events (entry_world (RegularFile True (Some short_content))))) = 1 \<and>
   fs (snd (script absent_world)) env_file = None"
  using read_only_access [of "entry_world (RegularFile True (Some short_content))"]
    read_only_access [of absent_world]
  by (simp add: fs_entry_world fs_absent_world)




text \<open>
  C10, as amended. The existence check is true for an entry of any kind, and the run
  prints the success marker before it opens the entry, whatever the entry is. When the
  entry is a directory or a socket, the open for reading then raises, and the script
  ends with a traceback and exit status 1, the success marker being the last line
  printed.
\<close>

theorem entry_found_then_open_fails:
  assumes "fs w env_file = Some entry"
  shows "fst (os_path_exists env_file w) \<and>
    take 6 (script_events w) =
      [Print banner, Print project_line, Print path_line, Exists env_file,
       Print success_marker, Open env_file ''r''] \<and>
    (entry = Directory \<or> entry = Socket \<longrightarrow>
       script_events w =
         [Print banner, Print project_line, Print path_line, Exists env_file,
          Print success_marker, Open env_file ''r'',
          Traceback (if entry = Directory then IsADirectoryError else OSError)] \<and>
       fst (py_open env_file ''r'' w) =
         Raise (if entry = Directory then IsADirectoryError else OSError) \<and>
       fst (script w) = Some 1)"
proof (intro conjI impI)
  from assms show "fst (os_path_exists env_file w)"
    by (simp add: os_path_exists_def)
  from assms have "fs w env_file \<noteq> None" by simp
  then have r: "take 6 (run_events w) =
      [Print banner, Print project_line, Print path_line, Exists env_file,
       Print success_marker, Open env_file ''r'']"
    by (cases rule: entry_cases [of w]) (simp_all add: run_events_cases prologue_def)
  then have "length (take 6 (run_events w)) = 6" by simp
  then have l: "6 \<le> length (run_events w)" by simp
  have "script_events w = run_events w \<or>
      (\<exists>e. script_events w = run_events w @ [Traceback e])"
    using script_events_ok [of w] script_events_raised [of w] script_events_blocked [of w]
    by (cases "fst (main w)") auto
  with r l show "take 6 (script_events w) =
      [Print banner, Print project_line, Print path_line, Exists env_file,
       Print success_marker, Open env_file ''r'']"
    by auto
next
  assume d: "entry = Directory \<or> entry = Socket"
  then have m: "fst (main w) =
      Raise (if entry = Directory then IsADirectoryError else OSError)"
    and e: "run_events w = prologue @ [Print success_marker, Open env_file ''r'']"
    using assms by (auto simp add: main_directory main_socket run_events_directory
          run_events_socket)
  from d assms show "fst (py_open env_file ''r'' w) =
      Raise (if entry = Directory then IsADirectoryError else OSError)"
    by (auto simp add: py_open_def)
  from m e show "script_events w =
      [Print banner, Print project_line, Print path_line, Exists env_file,
       Print success_marker, Open env_file ''r'',
       Traceback (if entry = Directory then IsADirectoryError else OSError)]"
    by (simp add: script_events_raised prologue_def)
  from m show "fst (script w) = Some 1"
    by (simp add: script_events_raised)
qed

theorem entry_found_then_open_fails_witness:
  "fs (entry_world Directory) env_file = Some Directory \<and>
   fst (os_path_exists env_file (entry_world Directory)) \<and>
   script_events (entry_world Directory) =
     [Print banner, Print project_line, Print path_line, Exists env_file,
      Print success_marker, Open env_file ''r'', Traceback IsADirectoryError] \<and>
   fst (script (entry_world Directory)) = Some 1 \<and>
   fs (entry_world Socket) env_file = Some Socket \<and>
   script_events (entry_world Socket) =
     [Print banner, Print project_line, Print path_line, Exists env_file,
      Print success_marker, Open env_file ''r'', Traceback OSError] \<and>
   fst (script (entry_world Socket)) = Some 1"
  using entry_found_then_open_fails [OF fs_entry_world [of Directory]]
    entry_found_then_open_fails [OF fs_entry_world [of Socket]]
  by (simp add: fs_entry_world)

text \<open>
  C10 as stated fails: \<open>/dev/null\<close> at the env file path exists and is no regular
  file, yet \<open>open\<close> and \<open>read\<close> succeed on it; the run prints the empty preview and
  the instruction list, and the script exits with status 0.
\<close>

theorem device_found_and_read_counterexample:
  "fs (entry_world dev_null) env_file = Some dev_null \<and>
   \<not> is_regular dev_null \<and>
   fst (os_path_exists env_file (entry_world dev_null)) \<and>
   fst (py_open env_file ''r'' (entry_world dev_null)) = Ok env_file \<and>
   fst (main (entry_world dev_null)) = Ok () \<and>
   fst (script (entry_world dev_null)) = Some 0 \<and>
   printed (script_events (entry_world dev_null)) =
     [banner, project_line, path_line, success_marker,
      lit ''Content preview: ...'', instruction_header] @ six_steps"
proof -
  have f: "fs (entry_world dev_null) env_file = Some (CharDevice [])"
    by (simp add: fs_entry_world dev_null_def)
  then have m: "fst (main (entry_world dev_null)) = Ok ()"
    by (simp add: main_chardev)
  from f m script_events_ok [OF m] show ?thesis
    by (simp add: dev_null_def os_path_exists_def py_open_def run_events_chardev
          prologue_def six_steps_def ellipsis_def lit_def)
qed

end
